theory Spec2Isabelle
  imports Main
begin

section \<open>Library reconciliation: the data the service works on\<close>

text \<open>
  The development follows \<^verbatim>\<open>LibraryService\<close> (the second document of
  \<^verbatim>\<open>src/server/src/domain/album/dto/get-albums.dto.ts\<close>): the ingest worker
  \<^verbatim>\<open>handleRefreshAsset\<close>, the offline worker \<^verbatim>\<open>handleOfflineAsset\<close> and the
  reconciler \<^verbatim>\<open>refresh\<close>. Every \<^verbatim>\<open>await\<close> on a collaborator is a step on an
  explicit state, the \<open>world\<close>; every \<^verbatim>\<open>throw\<close> is an \<open>Inl\<close> result.
\<close>

datatype LibraryType = IMPORT | UPLOAD

record LibraryEntity =
  library_id :: string
  library_type :: LibraryType
  importPaths :: "string list"

text \<open>\<^verbatim>\<open>ILibraryJob\<close>, the payload of a refresh or an offline job.\<close>

record ILibraryJob =
  assetPath :: string
  ownerId :: string
  libraryId :: string
  forceRefresh :: bool
  emptyTrash :: bool

text \<open>
  \<^verbatim>\<open>RefreshLibraryDto\<close>: both flags are optional; the service reads them with
  \<^verbatim>\<open>?? false\<close>.
\<close>

record RefreshLibraryDto =
  dto_forceRefresh :: "bool option"
  dto_emptyTrash :: "bool option"

definition orFalse :: "bool option \<Rightarrow> bool" where
  "orFalse v = (case v of None \<Rightarrow> False | Some b \<Rightarrow> b)"

text \<open>
  A JavaScript \<^verbatim>\<open>Date\<close> is an object: it has an identity on the heap and holds a
  time value. \<^verbatim>\<open>fs.Stats.mtime\<close> and \<^verbatim>\<open>fs.Stats.ctime\<close> are \<^verbatim>\<open>Date\<close>s, and so
  is the entity's \<^verbatim>\<open>fileModifiedAt\<close> (line 212 stores \<^verbatim>\<open>stats.mtime\<close> in it).
  The operators \<^verbatim>\<open>===\<close> and \<^verbatim>\<open>!==\<close> on two objects compare identities, not the
  values the objects hold: \<^verbatim>\<open>a !== b\<close> is true of two \<^verbatim>\<open>Date\<close>s unless they are one
  and the same object.
\<close>

record date =
  date_ref :: nat
  getTime :: int

definition strict_neq :: "date \<Rightarrow> date \<Rightarrow> bool" where
  "strict_neq a b = (date_ref a \<noteq> date_ref b)"

text \<open>
  The fields of an asset that the service sets or reads. \<open>'t\<close> is the representation of
  a timestamp: a \<open>date\<close> object in an entity held by the program, a plain time value in
  a stored row. The fields no operation of the service reads back (\<^verbatim>\<open>deviceAssetId\<close>,
  \<^verbatim>\<open>deviceId\<close>, \<^verbatim>\<open>originalFileName\<close> and the constant flags of a fresh asset) are
  left out.
\<close>

record 't asset_fields =
  owner :: string
  library :: string
  checksum :: string
  originalPath :: string
  fileCreatedAt :: 't
  fileModifiedAt :: 't
  assetType :: string
  sidecarPath :: "string option"
  isReadOnly :: bool
  isOffline :: bool

record 't asset = "'t asset_fields" +
  asset_id :: nat

datatype JobItem =
    REFRESH_LIBRARY_FILE ILibraryJob
  | OFFLINE_LIBRARY_FILE ILibraryJob
  | METADATA_EXTRACTION nat string
  | VIDEO_CONVERSION nat

datatype exception =
    BadRequestException string
  | InternalServerErrorException string
  | Error string
  | Rejected string

text \<open>The calls the service makes on its collaborators, in the order it makes them.\<close>

datatype call =
    Call_getByLibraryIdAndOriginalPath string string
  | Call_stat string
  | Call_update nat bool
  | Call_hashFile string
  | Call_access string
  | Call_create string string
  | Call_remove nat
  | Call_queue JobItem
  | Call_getById string
  | Call_findAllMedia "string list"
  | Call_getByLibraryId "string list"

record file_info =
  file_mtime :: int
  file_ctime :: int
  file_size :: nat

text \<open>\<^verbatim>\<open>fs.Stats\<close>, as far as the service reads it.\<close>

record stats =
  mtime :: date
  ctime :: date
  stat_size :: nat

text \<open>
  What lies outside the service and is only read by it: the file system, the
  \<^verbatim>\<open>mime\<close> package, \<^verbatim>\<open>mimeTypes.isAsset\<close>, the hash of a file, the crawler
  \<^verbatim>\<open>LibraryCrawler.findAllMedia\<close>, Node's \<^verbatim>\<open>path.normalize\<close>, and whether the fetch
  of a library's assets is rejected. None of them is in the sources; they are parameters.
\<close>

record env =
  fs_stat :: "string \<Rightarrow> file_info option"
  fs_access :: "string \<Rightarrow> bool"
  mime_lookup :: "string \<Rightarrow> string option"
  isAsset :: "string \<Rightarrow> bool"
  hash_of :: "string \<Rightarrow> string"
  findAllMedia :: "string list \<Rightarrow> exception + string list"
  path_normalize :: "string \<Rightarrow> string"
  fetch_rejection :: "exception option"

text \<open>
  The mutable state: the persisted catalog (a table of rows keyed by \<open>asset_id\<close>), the
  libraries, the job queue, the log of calls, and the two counters that hand out asset
  ids and object identities.
\<close>

record world =
  assets :: "int asset list"
  libraries :: "LibraryEntity list"
  jobs :: "JobItem list"
  calls :: "call list"
  next_id :: nat
  next_ref :: nat

section \<open>The collaborators\<close>

definition record_call :: "call \<Rightarrow> world \<Rightarrow> world" where
  "record_call c w = w\<lparr>calls := calls w @ [c]\<rparr>"

text \<open>\<^verbatim>\<open>new Date(t)\<close>: a fresh object holding \<open>t\<close>.\<close>

definition new_Date :: "int \<Rightarrow> world \<Rightarrow> date \<times> world" where
  "new_Date t w = (\<lparr>date_ref = next_ref w, getTime = t\<rparr>, w\<lparr>next_ref := Suc (next_ref w)\<rparr>)"

text \<open>
  \<^verbatim>\<open>fs.promises.stat\<close>: rejects (\<open>None\<close>) when the path cannot be read; otherwise a
  new \<^verbatim>\<open>Stats\<close> object whose dates are new objects.
\<close>

definition stat :: "env \<Rightarrow> string \<Rightarrow> world \<Rightarrow> stats option \<times> world" where
  "stat e p w =
     (case fs_stat e p of
        None \<Rightarrow> (None, record_call (Call_stat p) w)
      | Some f \<Rightarrow>
          (let (m, w1) = new_Date (file_mtime f) w;
               (c, w2) = new_Date (file_ctime f) w1
           in (Some \<lparr>mtime = m, ctime = c, stat_size = file_size f\<rparr>,
               record_call (Call_stat p) w2)))"

text \<open>A stored row read into an entity: its two timestamps become new objects.\<close>

definition entity_of :: "int asset \<Rightarrow> date \<Rightarrow> date \<Rightarrow> date asset" where
  "entity_of r c m =
     \<lparr>owner = owner r, library = library r, checksum = checksum r,
      originalPath = originalPath r, fileCreatedAt = c, fileModifiedAt = m,
      assetType = assetType r, sidecarPath = sidecarPath r, isReadOnly = isReadOnly r,
      isOffline = isOffline r, asset_id = asset_id r\<rparr>"

text \<open>
  The catalog accessor \<^verbatim>\<open>IAssetRepository\<close> and the library accessor
  \<^verbatim>\<open>ILibraryRepository\<close> are interfaces whose implementations are not in the sources.
  Their operations are modelled from section 6 of the specification, over a persisted
  catalog: what is read from the catalog is a new object each time.
\<close>

text \<open>
  Modelled from the spec: \<^verbatim>\<open>getAssetByLibraryAndPath(libraryId, path) \<rightarrow> Asset | none\<close>.
  The first stored row of the library with the path, read into an entity.
\<close>

definition getByLibraryIdAndOriginalPath ::
  "string \<Rightarrow> string \<Rightarrow> world \<Rightarrow> date asset option \<times> world" where
  "getByLibraryIdAndOriginalPath l p w =
     (case find (\<lambda>r. library r = l \<and> originalPath r = p) (assets w) of
        None \<Rightarrow> (None, record_call (Call_getByLibraryIdAndOriginalPath l p) w)
      | Some r \<Rightarrow>
          (let (c, w1) = new_Date (fileCreatedAt r) w;
               (m, w2) = new_Date (fileModifiedAt r) w1
           in (Some (entity_of r c m),
               record_call (Call_getByLibraryIdAndOriginalPath l p) w2)))"

text \<open>
  Modelled from the spec: \<^verbatim>\<open>updateAsset(id, partialFields) \<rightarrow> Asset\<close>. The service
  only ever passes \<^verbatim>\<open>{ id, isOffline }\<close>; the rows with the id get the flag.
\<close>

definition update :: "nat \<Rightarrow> bool \<Rightarrow> world \<Rightarrow> world" where
  "update i off w =
     record_call (Call_update i off)
       (w\<lparr>assets := map (\<lambda>r. if asset_id r = i then r\<lparr>isOffline := off\<rparr> else r) (assets w)\<rparr>)"

text \<open>
  Modelled from the spec: \<^verbatim>\<open>deleteAsset(id) \<rightarrow> void\<close>. The rows with the entity's id
  are deleted.
\<close>

definition remove :: "date asset \<Rightarrow> world \<Rightarrow> world" where
  "remove a w =
     record_call (Call_remove (asset_id a))
       (w\<lparr>assets := filter (\<lambda>r. asset_id r \<noteq> asset_id a) (assets w)\<rparr>)"

text \<open>
  Modelled from the spec: \<^verbatim>\<open>createAsset(fields) \<rightarrow> Asset\<close>. A row with the fields is
  appended under a new id; the entity returned carries that id.
\<close>

definition create :: "date asset_fields \<Rightarrow> world \<Rightarrow> date asset \<times> world" where
  "create f w =
     (\<lparr>owner = owner f, library = library f, checksum = checksum f,
       originalPath = originalPath f, fileCreatedAt = fileCreatedAt f,
       fileModifiedAt = fileModifiedAt f, assetType = assetType f,
       sidecarPath = sidecarPath f, isReadOnly = isReadOnly f, isOffline = isOffline f,
       asset_id = next_id w\<rparr>,
      record_call (Call_create (library f) (originalPath f))
        (w\<lparr>assets := assets w @
             [\<lparr>owner = owner f, library = library f, checksum = checksum f,
               originalPath = originalPath f, fileCreatedAt = getTime (fileCreatedAt f),
               fileModifiedAt = getTime (fileModifiedAt f), assetType = assetType f,
               sidecarPath = sidecarPath f, isReadOnly = isReadOnly f,
               isOffline = isOffline f, asset_id = next_id w\<rparr>],
           next_id := Suc (next_id w)\<rparr>))"

text \<open>
  Modelled from the spec: \<^verbatim>\<open>getAssetsByLibrary(libraryIds) \<rightarrow> list of Asset\<close>. The
  reconciler reads only \<^verbatim>\<open>originalPath\<close> of what it gets, so the rows are returned as
  stored. The fetch is rejected when \<open>fetch_rejection\<close> says so.
\<close>

definition getByLibraryId :: "env \<Rightarrow> string list \<Rightarrow> world \<Rightarrow> (exception + int asset list) \<times> world" where
  "getByLibraryId e ls w =
     (case fetch_rejection e of
        Some x \<Rightarrow> (Inl x, record_call (Call_getByLibraryId ls) w)
      | None \<Rightarrow> (Inr (filter (\<lambda>r. library r \<in> set ls) (assets w)),
                 record_call (Call_getByLibraryId ls) w))"

text \<open>
  Modelled from the spec: \<^verbatim>\<open>ILibraryRepository.getById\<close>, not in the sources; section 6
  gives \<^verbatim>\<open>getLibrary(id) \<rightarrow> Library | not-found\<close>.
\<close>

definition getById :: "string \<Rightarrow> world \<Rightarrow> (exception + LibraryEntity) \<times> world" where
  "getById l w =
     (case find (\<lambda>x. library_id x = l) (libraries w) of
        None \<Rightarrow> (Inl (Rejected ''Library not found''), record_call (Call_getById l) w)
      | Some x \<Rightarrow> (Inr x, record_call (Call_getById l) w))"

text \<open>\<^verbatim>\<open>jobRepository.queue\<close>: the job goes to the end of the queue.\<close>

definition queue :: "JobItem \<Rightarrow> world \<Rightarrow> world" where
  "queue j w = record_call (Call_queue j) (w\<lparr>jobs := jobs w @ [j]\<rparr>)"

definition hashFile :: "env \<Rightarrow> string \<Rightarrow> world \<Rightarrow> string \<times> world" where
  "hashFile e p w = (hash_of e p, record_call (Call_hashFile p) w)"

definition access :: "env \<Rightarrow> string \<Rightarrow> world \<Rightarrow> bool \<times> world" where
  "access e p w = (fs_access e p, record_call (Call_access p) w)"

section \<open>The ingest worker\<close>

text \<open>
  Modelled from the spec: the enum \<^verbatim>\<open>AssetType\<close> is declared outside the sources;
  section 3 names its members IMAGE, VIDEO, AUDIO and OTHER, and the cast on line 190
  shows that a member is the upper-case top-level class of a MIME type.
\<close>

definition AssetType_VIDEO :: string where
  "AssetType_VIDEO = ''VIDEO''"

text \<open>
  \<^verbatim>\<open>String.prototype.toUpperCase\<close> on the ASCII letters a MIME type is made of: a
  lower-case letter becomes its upper-case letter, every other character stays.
\<close>

definition toUpperCase_char :: "char \<Rightarrow> char" where
  "toUpperCase_char c =
     (case map_of (zip ''abcdefghijklmnopqrstuvwxyz'' ''ABCDEFGHIJKLMNOPQRSTUVWXYZ'') c of
        None \<Rightarrow> c
      | Some u \<Rightarrow> u)"

definition toUpperCase :: "string \<Rightarrow> string" where
  "toUpperCase s = map toUpperCase_char s"

text \<open>\<^verbatim>\<open>mimeType.split('/')[0]\<close>: the text before the first slash.\<close>

definition split_slash_0 :: "string \<Rightarrow> string" where
  "split_slash_0 s = takeWhile (\<lambda>c. c \<noteq> CHR ''/'') s"

text \<open>Lines 153 to 166: the decision to import.\<close>

definition doImport :: "ILibraryJob \<Rightarrow> date asset option \<Rightarrow> stats \<Rightarrow> bool" where
  "doImport job existingAssetEntity st =
     (let d0 = False;
          d1 = (if forceRefresh job then True else d0)
      in case existingAssetEntity of
           None \<Rightarrow> True
         | Some a \<Rightarrow> if strict_neq (mtime st) (fileModifiedAt a) then True else d1)"

text \<open>Lines 178 to 242: the import itself.\<close>

definition importAsset :: "env \<Rightarrow> ILibraryJob \<Rightarrow> stats \<Rightarrow> world \<Rightarrow> (exception + bool) \<times> world" where
  "importAsset e job st w =
     (case mime_lookup e (assetPath job) of
        None \<Rightarrow> (Inl (Error (''Cannot determine mime type of asset: '' @ assetPath job)), w)
      | Some mimeType \<Rightarrow>
          if mimeType = [] then
            (Inl (Error (''Cannot determine mime type of asset: '' @ assetPath job)), w)
          else if \<not> isAsset e (assetPath job) then
            (Inl (BadRequestException (''Unsupported file type '' @ mimeType)), w)
          else
            (let (sum, w1) = hashFile e (assetPath job) w;
                 ty = toUpperCase (split_slash_0 mimeType);
                 (readable, w2) = access e (assetPath job @ ''.xmp'') w1;
                 sidecar = (if readable then Some (assetPath job @ ''.xmp'') else None);
                 (addedAsset, w3) =
                   create \<lparr>owner = ownerId job, library = libraryId job, checksum = sum,
                           originalPath = assetPath job, fileCreatedAt = ctime st,
                           fileModifiedAt = mtime st, assetType = ty,
                           sidecarPath = sidecar, isReadOnly = True, isOffline = False\<rparr> w2;
                 w4 = queue (METADATA_EXTRACTION (asset_id addedAsset) ''upload'') w3;
                 w5 = (if assetType addedAsset = AssetType_VIDEO
                       then queue (VIDEO_CONVERSION (asset_id addedAsset)) w4 else w4)
             in (Inr True, w5)))"

text \<open>\<^verbatim>\<open>handleRefreshAsset\<close>, lines 135 to 243.\<close>

definition handleRefreshAsset :: "env \<Rightarrow> ILibraryJob \<Rightarrow> world \<Rightarrow> (exception + bool) \<times> world" where
  "handleRefreshAsset e job w =
     (let (existingAssetEntity, w1) =
            getByLibraryIdAndOriginalPath (libraryId job) (assetPath job) w;
          (st, w2) = stat e (assetPath job) w1
      in case st of
           None \<Rightarrow>
             (case existingAssetEntity of
                Some a \<Rightarrow> (Inr True, update (asset_id a) True w2)
              | None \<Rightarrow> (Inl (BadRequestException ''Can't access file''), w2))
         | Some s \<Rightarrow>
             (let w3 = (case existingAssetEntity of
                          None \<Rightarrow> w2
                        | Some a \<Rightarrow> if isOffline a then update (asset_id a) False w2 else w2)
              in if \<not> doImport job existingAssetEntity s then (Inr True, w3)
                 else importAsset e job s w3))"

section \<open>The offline worker\<close>


section \<open>The reconciler\<close>

text \<open>
  The job data of the first loop (lines 281 to 287) and of the second (lines 299 to
  305), for the path \<open>p\<close> they carry.
\<close>

definition refreshJob :: "string \<Rightarrow> string \<Rightarrow> RefreshLibraryDto \<Rightarrow> string \<Rightarrow> JobItem" where
  "refreshJob authUser_id l dto p =
     REFRESH_LIBRARY_FILE
       \<lparr>assetPath = p, ownerId = authUser_id, libraryId = l,
        forceRefresh = orFalse (dto_forceRefresh dto),
        emptyTrash = orFalse (dto_emptyTrash dto)\<rparr>"

definition offlineJob :: "string \<Rightarrow> string \<Rightarrow> RefreshLibraryDto \<Rightarrow> string \<Rightarrow> JobItem" where
  "offlineJob authUser_id l dto p =
     OFFLINE_LIBRARY_FILE
       \<lparr>assetPath = p, ownerId = authUser_id, libraryId = l, forceRefresh = False,
        emptyTrash = orFalse (dto_emptyTrash dto)\<rparr>"

text \<open>A \<^verbatim>\<open>for ... of\<close> loop that queues one job per element, in order.\<close>

fun queueEach :: "(string \<Rightarrow> JobItem) \<Rightarrow> string list \<Rightarrow> world \<Rightarrow> world" where
  "queueEach mk [] w = w"
| "queueEach mk (p # ps) w = queueEach mk ps (queue (mk p) w)"

text \<open>\<^verbatim>\<open>refresh\<close>, lines 263 to 309.\<close>

definition refresh ::
  "env \<Rightarrow> string \<Rightarrow> string \<Rightarrow> RefreshLibraryDto \<Rightarrow> world \<Rightarrow> (exception + unit) \<times> world" where
  "refresh e authUser_id l dto w =
     (let (got, w1) = getById l w
      in case got of
           Inl x \<Rightarrow> (Inl x, w1)
         | Inr lib \<Rightarrow>
             if library_type lib \<noteq> IMPORT then
               (Inl (InternalServerErrorException ''Only imported libraries can be refreshed''),
                w1)
             else
               (case findAllMedia e (importPaths lib) of
                  Inl x \<Rightarrow> (Inl x, record_call (Call_findAllMedia (importPaths lib)) w1)
                | Inr found \<Rightarrow>
                    (let w2 = record_call (Call_findAllMedia (importPaths lib)) w1;
                         crawledAssetPaths = map (path_normalize e) found;
                         w3 = queueEach (\<lambda>assetPath. refreshJob authUser_id l dto (path_normalize e assetPath))
                                crawledAssetPaths w2;
                         (fetched, w4) = getByLibraryId e [l] w3
                     in case fetched of
                          Inl x \<Rightarrow> (Inl x, w4)
                        | Inr assetsInLibrary \<Rightarrow>
                            (let offlineAssets =
                                   filter (\<lambda>p. p \<notin> set crawledAssetPaths)
                                     (map (path_normalize e) (map originalPath assetsInLibrary));
                                 w5 = queueEach (offlineJob authUser_id l dto) offlineAssets w4
                             in (Inr (), w5)))))"

section \<open>What a run can be observed to have done\<close>

text \<open>The row the catalog accessor finds for a library and a path, if any.\<close>

definition stored :: "string \<Rightarrow> string \<Rightarrow> world \<Rightarrow> int asset option" where
  "stored l p w = find (\<lambda>r. library r = l \<and> originalPath r = p) (assets w)"

text \<open>All the rows the catalog holds for a library and a path.\<close>

definition rowsAt :: "string \<Rightarrow> string \<Rightarrow> world \<Rightarrow> int asset list" where
  "rowsAt l p w = filter (\<lambda>r. library r = l \<and> originalPath r = p) (assets w)"

text \<open>
  The invariant of the data model: at most one asset per library and path.
\<close>

definition onePerPath :: "world \<Rightarrow> bool" where
  "onePerPath w = distinct (map (\<lambda>r. (library r, originalPath r)) (assets w))"

text \<open>The jobs queued and the calls made between an earlier state and a later one.\<close>

definition emitted :: "world \<Rightarrow> world \<Rightarrow> JobItem list" where
  "emitted w w' = drop (length (jobs w)) (jobs w')"

definition made :: "world \<Rightarrow> world \<Rightarrow> call list" where
  "made w w' = drop (length (calls w)) (calls w')"

text \<open>The paths that the refresh jobs, and the offline jobs, of a list of jobs carry.\<close>

fun refreshPaths :: "JobItem list \<Rightarrow> string list" where
  "refreshPaths [] = []"
| "refreshPaths (REFRESH_LIBRARY_FILE d # js) = assetPath d # refreshPaths js"
| "refreshPaths (j # js) = refreshPaths js"

fun offlinePaths :: "JobItem list \<Rightarrow> string list" where
  "offlinePaths [] = []"
| "offlinePaths (OFFLINE_LIBRARY_FILE d # js) = assetPath d # offlinePaths js"
| "offlinePaths (j # js) = offlinePaths js"

text \<open>The calls that belong to the import: hashing, the sidecar probe, creating, queueing.\<close>

fun importCall :: "call \<Rightarrow> bool" where
  "importCall (Call_hashFile p) = True"
| "importCall (Call_access p) = True"
| "importCall (Call_create l p) = True"
| "importCall (Call_queue j) = True"
| "importCall c = False"

section \<open>A library on disk and in the catalog\<close>

text \<open>
  After the scenario of section 8 of the specification: the library \<open>lib1\<close> of user
  \<open>u1\<close> imports \<open>/media\<close>; the disk holds \<open>/media/a.jpg\<close>, \<open>/media/a.mp4\<close> and
  \<open>/media/sub/c.jpg\<close>; the catalog holds asset 1 for \<open>/media/b.jpg\<close>, which is no
  longer on disk. \<open>lib2\<close> is an upload library, and \<open>lib3\<close> imports both \<open>/media\<close>
  and \<open>/media/sub\<close>.
\<close>

definition ex_stat :: "string \<Rightarrow> file_info option" where
  "ex_stat p =
     (if p = ''/media/a.jpg'' \<or> p = ''/media/a.mp4'' \<or> p = ''/media/sub/c.jpg''
      then Some \<lparr>file_mtime = 1000, file_ctime = 900, file_size = 2048\<rparr> else None)"

definition ex_mime :: "string \<Rightarrow> string option" where
  "ex_mime p =
     (if p = ''/media/a.jpg'' \<or> p = ''/media/sub/c.jpg'' then Some ''image/jpeg''
      else if p = ''/media/a.mp4'' then Some ''video/mp4'' else None)"

text \<open>
  Modelled from the spec: the crawler \<^verbatim>\<open>LibraryCrawler\<close> is not in the sources; by
  section 4.1 it walks each root recursively and yields every media file it meets.
\<close>

definition ex_walk :: "string \<Rightarrow> string list" where
  "ex_walk root =
     (if root = ''/media'' then [''/media/a.jpg'', ''/media/a.mp4'', ''/media/sub/c.jpg'']
      else if root = ''/media/sub'' then [''/media/sub/c.jpg''] else [])"

definition ex_env :: env where
  "ex_env =
     \<lparr>fs_stat = ex_stat, fs_access = (\<lambda>p. False), mime_lookup = ex_mime,
      isAsset = (\<lambda>p. True), hash_of = (\<lambda>p. ''digest of '' @ p),
      findAllMedia = (\<lambda>roots. Inr (concat (map ex_walk roots))), path_normalize = (\<lambda>p. p),
      fetch_rejection = None\<rparr>"

definition ex_row :: "string \<Rightarrow> int \<Rightarrow> bool \<Rightarrow> int asset" where
  "ex_row p t off =
     \<lparr>owner = ''u1'', library = ''lib1'', checksum = ''digest of '' @ p, originalPath = p,
      fileCreatedAt = 900, fileModifiedAt = t, assetType = ''IMAGE'', sidecarPath = None,
      isReadOnly = True, isOffline = off, asset_id = 1\<rparr>"

definition ex_catalog :: "int asset list \<Rightarrow> world" where
  "ex_catalog rows =
     \<lparr>assets = rows,
      libraries = [\<lparr>library_id = ''lib1'', library_type = IMPORT, importPaths = [''/media'']\<rparr>,
                   \<lparr>library_id = ''lib2'', library_type = UPLOAD, importPaths = []\<rparr>,
                   \<lparr>library_id = ''lib3'', library_type = IMPORT,
                    importPaths = [''/media'', ''/media/sub'']\<rparr>],
      jobs = [], calls = [], next_id = 2, next_ref = 0\<rparr>"

definition ex_world :: world where
  "ex_world = ex_catalog [ex_row ''/media/b.jpg'' 1000 False]"

definition ex_job :: "string \<Rightarrow> bool \<Rightarrow> ILibraryJob" where
  "ex_job p trash =
     \<lparr>assetPath = p, ownerId = ''u1'', libraryId = ''lib1'', forceRefresh = False,
      emptyTrash = trash\<rparr>"

definition ex_dto :: RefreshLibraryDto where
  "ex_dto = \<lparr>dto_forceRefresh = None, dto_emptyTrash = None\<rparr>"

text \<open>The crawler fails; the fetch of the assets fails.\<close>

definition ex_env_crawl_fails :: env where
  "ex_env_crawl_fails = ex_env\<lparr>findAllMedia := (\<lambda>ps. Inl (Rejected ''crawl failed''))\<rparr>"

definition ex_env_fetch_fails :: env where
  "ex_env_fetch_fails = ex_env\<lparr>fetch_rejection := Some (Rejected ''fetch failed'')\<rparr>"

text \<open>
  Three catalogs that hold \<open>/media/a.jpg\<close>, which is on disk with modification time
  1000: one that stores that same time, one that stores an older time, and one whose
  asset is marked offline. \<open>ex_once\<close> is the first of them after one run of the ingest
  worker.
\<close>

definition ex_unchanged :: world where
  "ex_unchanged = ex_catalog [ex_row ''/media/a.jpg'' 1000 False]"

definition ex_modified :: world where
  "ex_modified = ex_catalog [ex_row ''/media/a.jpg'' 500 False]"

definition ex_offline :: world where
  "ex_offline = ex_catalog [ex_row ''/media/a.jpg'' 1000 True]"

definition ex_once :: world where
  "ex_once = snd (handleRefreshAsset ex_env (ex_job ''/media/a.jpg'' False) ex_unchanged)"

text \<open>The row the ingest worker adds for \<open>/media/a.jpg\<close> under the id \<open>i\<close>.\<close>

definition ex_added :: "nat \<Rightarrow> int asset" where
  "ex_added i =
     \<lparr>owner = ''u1'', library = ''lib1'', checksum = ''digest of /media/a.jpg'',
      originalPath = ''/media/a.jpg'', fileCreatedAt = 900, fileModifiedAt = 1000,
      assetType = ''IMAGE'', sidecarPath = None, isReadOnly = True, isOffline = False,
      asset_id = i\<rparr>"

section \<open>Auxiliary facts\<close>

lemmas steps =
  getByLibraryIdAndOriginalPath_def stat_def update_def remove_def create_def queue_def
  hashFile_def access_def record_call_def new_Date_def entity_of_def

lemmas examples =
  ex_env_def ex_stat_def ex_mime_def ex_walk_def ex_row_def ex_catalog_def ex_world_def
  ex_job_def ex_dto_def ex_env_crawl_fails_def ex_env_fetch_fails_def ex_unchanged_def
  ex_modified_def ex_offline_def ex_added_def

lemma stored_in_assets: "stored l p w = Some a \<Longrightarrow> a \<in> set (assets w)"
  by (auto simp: stored_def find_Some_iff)





lemmas run_defs =
  handleRefreshAsset_def importAsset_def doImport_def strict_neq_def steps Let_def
  toUpperCase_def toUpperCase_char_def split_slash_0_def AssetType_VIDEO_def

lemma importAsset_calls:
  "\<exists>rest. calls (snd (importAsset e job s w)) = calls w @ rest \<and> list_all importCall rest"
  by (auto simp: importAsset_def steps Let_def split: option.splits)

lemma importAsset_assets:
  "assets (snd (importAsset e job s w)) = assets w \<or>
   (\<exists>row. assets (snd (importAsset e job s w)) = assets w @ [row] \<and> \<not> isOffline row)"
  by (auto simp: importAsset_def steps Let_def split: option.splits)

lemma handleRefreshAsset_shape:
  "\<exists>w3 s pre. calls w3 = calls w @ pre \<and> list_all (\<lambda>c. \<not> importCall c) pre
      \<and> jobs w3 = jobs w \<and> next_id w3 = next_id w
      \<and> (handleRefreshAsset e job w = importAsset e job s w3
          \<or> snd (handleRefreshAsset e job w) = w3)"
proof (cases "fs_stat e (assetPath job)")
  case None
  let ?w3 = "snd (handleRefreshAsset e job w)"
  have "calls ?w3 = calls w @ made w ?w3 \<and> list_all (\<lambda>c. \<not> importCall c) (made w ?w3)
      \<and> jobs ?w3 = jobs w \<and> next_id ?w3 = next_id w"
    using None
    by (cases "find (\<lambda>r. library r = libraryId job \<and> originalPath r = assetPath job) (assets w)")
      (simp_all add: handleRefreshAsset_def steps made_def)
  then show ?thesis by blast
next
  case (Some f)
  show ?thesis
  proof (cases "find (\<lambda>r. library r = libraryId job \<and> originalPath r = assetPath job) (assets w)")
    case None
    let ?w3 = "snd (stat e (assetPath job)
        (snd (getByLibraryIdAndOriginalPath (libraryId job) (assetPath job) w)))"
    let ?s = "the (fst (stat e (assetPath job)
        (snd (getByLibraryIdAndOriginalPath (libraryId job) (assetPath job) w))))"
    have "handleRefreshAsset e job w = importAsset e job ?s ?w3"
      using None Some by (simp add: handleRefreshAsset_def steps doImport_def Let_def)
    moreover have "calls ?w3 = calls w @
        [Call_getByLibraryIdAndOriginalPath (libraryId job) (assetPath job),
         Call_stat (assetPath job)]" "jobs ?w3 = jobs w" "next_id ?w3 = next_id w"
      using None Some by (simp_all add: steps)
    ultimately show ?thesis by (intro exI [of _ ?w3] exI [of _ ?s]) simp
  next
    case (Some a)
    let ?g = "getByLibraryIdAndOriginalPath (libraryId job) (assetPath job) w"
    let ?w2 = "snd (stat e (assetPath job) (snd ?g))"
    let ?s = "the (fst (stat e (assetPath job) (snd ?g)))"
    let ?w3 = "if isOffline a then update (asset_id a) False ?w2 else ?w2"
    have "handleRefreshAsset e job w = importAsset e job ?s ?w3
        \<or> snd (handleRefreshAsset e job w) = ?w3"
      using Some \<open>fs_stat e (assetPath job) = Some f\<close>
      by (simp add: handleRefreshAsset_def getByLibraryIdAndOriginalPath_def stat_def
          new_Date_def entity_of_def Let_def)
    moreover have "calls ?w3 = calls w @
        (if isOffline a
         then [Call_getByLibraryIdAndOriginalPath (libraryId job) (assetPath job),
               Call_stat (assetPath job), Call_update (asset_id a) False]
         else [Call_getByLibraryIdAndOriginalPath (libraryId job) (assetPath job),
               Call_stat (assetPath job)])" "jobs ?w3 = jobs w" "next_id ?w3 = next_id w"
      using Some \<open>fs_stat e (assetPath job) = Some f\<close> by (simp_all add: steps)
    ultimately show ?thesis by (intro exI [of _ ?w3] exI [of _ ?s]) auto
  qed
qed

lemma importAsset_fails:
  assumes "snd (importAsset e job s w) \<noteq> w"
  shows "\<exists>m. mime_lookup e (assetPath job) = Some m \<and> m \<noteq> [] \<and> isAsset e (assetPath job)"
  using assms by (auto simp: importAsset_def split: option.splits if_splits)

lemma importAsset_succeeds:
  assumes "mime_lookup e (assetPath job) = Some m" "m \<noteq> []" "isAsset e (assetPath job)"
  shows "fst (importAsset e job s w) = Inr True"
    and "jobs (snd (importAsset e job s w)) = jobs w @
           METADATA_EXTRACTION (next_id w) ''upload'' #
           (if toUpperCase (split_slash_0 m) = AssetType_VIDEO
            then [VIDEO_CONVERSION (next_id w)] else [])"
    and "assets (snd (importAsset e job s w)) \<noteq> []"
    and "asset_id (last (assets (snd (importAsset e job s w)))) = next_id w"
    and "assetType (last (assets (snd (importAsset e job s w)))) = toUpperCase (split_slash_0 m)"
  using assms by (simp_all add: importAsset_def steps Let_def)

lemma queueEach_jobs: "jobs (queueEach mk ps w) = jobs w @ map mk ps"
  by (induction ps arbitrary: w) (simp_all add: queue_def record_call_def)

lemma queueEach_assets: "assets (queueEach mk ps w) = assets w"
  by (induction ps arbitrary: w) (simp_all add: queue_def record_call_def)

lemma refreshPaths_append: "refreshPaths (xs @ ys) = refreshPaths xs @ refreshPaths ys"
  by (induction xs rule: refreshPaths.induct) simp_all

lemma offlinePaths_append: "offlinePaths (xs @ ys) = offlinePaths xs @ offlinePaths ys"
  by (induction xs rule: offlinePaths.induct) simp_all

lemma refreshPaths_refreshJob: "refreshPaths (map (\<lambda>p. refreshJob u l dto (f p)) ps) = map f ps"
  by (induction ps) (simp_all add: refreshJob_def)

lemma refreshPaths_offlineJob: "refreshPaths (map (offlineJob u l dto) ps) = []"
  by (induction ps) (simp_all add: offlineJob_def)

lemma offlinePaths_refreshJob: "offlinePaths (map (\<lambda>p. refreshJob u l dto (f p)) ps) = []"
  by (induction ps) (simp_all add: refreshJob_def)

lemma offlinePaths_offlineJob: "offlinePaths (map (offlineJob u l dto) ps) = ps"
  by (induction ps) (simp_all add: offlineJob_def)

lemma count_list_filter_out:
  "count_list (filter (\<lambda>p. p \<notin> S) xs) q = (if q \<in> S then 0 else count_list xs q)"
  by (induction xs) auto

lemma refresh_completes:
  assumes "find (\<lambda>x. library_id x = l) (libraries w) = Some lib"
    and "library_type lib = IMPORT"
    and "findAllMedia e (importPaths lib) = Inr found"
    and "fetch_rejection e = None"
  shows "fst (refresh e u l dto w) = Inr ()"
    and "jobs (snd (refresh e u l dto w)) = jobs w @
          map (\<lambda>p. refreshJob u l dto (path_normalize e p)) (map (path_normalize e) found) @
          map (offlineJob u l dto)
            (filter (\<lambda>p. p \<notin> set (map (path_normalize e) found))
               (map (path_normalize e) (map originalPath (filter (\<lambda>r. library r = l) (assets w)))))"
  using assms
  by (simp_all add: refresh_def getById_def getByLibraryId_def record_call_def Let_def
      queueEach_jobs queueEach_assets)

lemma ex_once_eq:
  "ex_once =
     \<lparr>assets = [ex_row ''/media/a.jpg'' 1000 False, ex_added 2],
      libraries = libraries ex_unchanged,
      jobs = [METADATA_EXTRACTION 2 ''upload''],
      calls = [Call_getByLibraryIdAndOriginalPath ''lib1'' ''/media/a.jpg'',
               Call_stat ''/media/a.jpg'', Call_hashFile ''/media/a.jpg'',
               Call_access ''/media/a.jpg.xmp'', Call_create ''lib1'' ''/media/a.jpg'',
               Call_queue (METADATA_EXTRACTION 2 ''upload'')],
      next_id = 3, next_ref = 4\<rparr>"
  by (simp add: ex_once_def run_defs examples)

section \<open>The ingest worker when the file cannot be read\<close>

text \<open>
  Claim C5. For every ingest job whose path cannot be stat'ed: if the catalog holds no
  asset for the job's library and path, the job fails with
  \<^verbatim>\<open>BadRequestException\<close> and neither the catalog nor the queue changes; if it holds
  one, that asset is marked offline (every row with its id gets \<open>isOffline = True\<close>,
  nothing else changes), nothing is imported (the only calls are the catalog read, the
  stat and the update; no job is queued), and the worker returns \<open>True\<close>.
\<close>

theorem handleRefreshAsset_stat_fails:
  assumes "fs_stat e (assetPath job) = None"
  shows "(stored (libraryId job) (assetPath job) w = None \<longrightarrow>
            fst (handleRefreshAsset e job w) = Inl (BadRequestException ''Can't access file'')
          \<and> assets (snd (handleRefreshAsset e job w)) = assets w
          \<and> jobs (snd (handleRefreshAsset e job w)) = jobs w
          \<and> made w (snd (handleRefreshAsset e job w)) =
               [Call_getByLibraryIdAndOriginalPath (libraryId job) (assetPath job),
                Call_stat (assetPath job)])
       \<and> (\<forall>a. stored (libraryId job) (assetPath job) w = Some a \<longrightarrow>
            fst (handleRefreshAsset e job w) = Inr True
          \<and> assets (snd (handleRefreshAsset e job w)) =
               map (\<lambda>r. if asset_id r = asset_id a then r\<lparr>isOffline := True\<rparr> else r) (assets w)
          \<and> a\<lparr>isOffline := True\<rparr> \<in> set (assets (snd (handleRefreshAsset e job w)))
          \<and> jobs (snd (handleRefreshAsset e job w)) = jobs w
          \<and> made w (snd (handleRefreshAsset e job w)) =
               [Call_getByLibraryIdAndOriginalPath (libraryId job) (assetPath job),
                Call_stat (assetPath job), Call_update (asset_id a) True])"
proof (intro conjI impI allI)
  fix a assume a: "stored (libraryId job) (assetPath job) w = Some a"
  have run: "handleRefreshAsset e job w =
     (Inr True, (update (asset_id a) True
        (record_call (Call_stat (assetPath job))
          (record_call (Call_getByLibraryIdAndOriginalPath (libraryId job) (assetPath job))
            (w\<lparr>next_ref := Suc (Suc (next_ref w))\<rparr>)))))"
    using a assms
    by (simp add: handleRefreshAsset_def getByLibraryIdAndOriginalPath_def stat_def
        new_Date_def entity_of_def stored_def record_call_def update_def)
  show "fst (handleRefreshAsset e job w) = Inr True" by (simp add: run)
  show "assets (snd (handleRefreshAsset e job w)) =
      map (\<lambda>r. if asset_id r = asset_id a then r\<lparr>isOffline := True\<rparr> else r) (assets w)"
    by (simp add: run update_def record_call_def)
  then show "a\<lparr>isOffline := True\<rparr> \<in> set (assets (snd (handleRefreshAsset e job w)))"
    using stored_in_assets [OF a] by force
  show "jobs (snd (handleRefreshAsset e job w)) = jobs w"
    by (simp add: run update_def record_call_def)
  show "made w (snd (handleRefreshAsset e job w)) =
      [Call_getByLibraryIdAndOriginalPath (libraryId job) (assetPath job),
       Call_stat (assetPath job), Call_update (asset_id a) True]"
    by (simp add: run update_def record_call_def made_def)
next
  assume n: "stored (libraryId job) (assetPath job) w = None"
  have run: "handleRefreshAsset e job w =
     (Inl (BadRequestException ''Can't access file''),
        (record_call (Call_stat (assetPath job))
          (record_call (Call_getByLibraryIdAndOriginalPath (libraryId job) (assetPath job)) w)))"
    using n assms
    by (simp add: handleRefreshAsset_def getByLibraryIdAndOriginalPath_def stat_def stored_def)
  show "fst (handleRefreshAsset e job w) = Inl (BadRequestException ''Can't access file'')"
    by (simp add: run)
  show "assets (snd (handleRefreshAsset e job w)) = assets w"
    by (simp add: run record_call_def)
  show "jobs (snd (handleRefreshAsset e job w)) = jobs w"
    by (simp add: run record_call_def)
  show "made w (snd (handleRefreshAsset e job w)) =
      [Call_getByLibraryIdAndOriginalPath (libraryId job) (assetPath job),
       Call_stat (assetPath job)]"
    by (simp add: run record_call_def made_def)
qed

text \<open>
  The theorem at two jobs on the example catalog: \<open>/media/b.jpg\<close> is in the catalog and
  not on disk, \<open>/media/x.jpg\<close> is in neither.
\<close>

theorem handleRefreshAsset_stat_fails_witness:
  "fs_stat ex_env (assetPath (ex_job ''/media/b.jpg'' False)) = None
   \<and> stored ''lib1'' ''/media/b.jpg'' ex_world = Some (ex_row ''/media/b.jpg'' 1000 False)
   \<and> fst (handleRefreshAsset ex_env (ex_job ''/media/b.jpg'' False) ex_world) = Inr True
   \<and> assets (snd (handleRefreshAsset ex_env (ex_job ''/media/b.jpg'' False) ex_world)) =
       [ex_row ''/media/b.jpg'' 1000 True]
   \<and> jobs (snd (handleRefreshAsset ex_env (ex_job ''/media/b.jpg'' False) ex_world)) = []
   \<and> fs_stat ex_env (assetPath (ex_job ''/media/x.jpg'' False)) = None
   \<and> stored ''lib1'' ''/media/x.jpg'' ex_world = None
   \<and> fst (handleRefreshAsset ex_env (ex_job ''/media/x.jpg'' False) ex_world) =
       Inl (BadRequestException ''Can't access file'')
   \<and> assets (snd (handleRefreshAsset ex_env (ex_job ''/media/x.jpg'' False) ex_world)) =
       assets ex_world"
  using handleRefreshAsset_stat_fails [of ex_env "ex_job ''/media/b.jpg'' False" ex_world]
    handleRefreshAsset_stat_fails [of ex_env "ex_job ''/media/x.jpg'' False" ex_world]
  by (simp add: examples stored_def)

section \<open>The offline worker\<close>




section \<open>The reconciler on a library that is not an import library\<close>

text \<open>
  Claim C9. For every library whose type is not \<open>IMPORT\<close>, \<open>refresh\<close> fails with
  \<^verbatim>\<open>InternalServerErrorException\<close>; the only call it has made is the read of the
  library, so nothing was crawled, and no job was queued.
\<close>

theorem refresh_rejects_non_import:
  assumes "find (\<lambda>x. library_id x = l) (libraries w) = Some lib"
    and "library_type lib \<noteq> IMPORT"
  shows "fst (refresh e u l dto w) =
           Inl (InternalServerErrorException ''Only imported libraries can be refreshed'')
       \<and> jobs (snd (refresh e u l dto w)) = jobs w
       \<and> assets (snd (refresh e u l dto w)) = assets w
       \<and> made w (snd (refresh e u l dto w)) = [Call_getById l]"
  using assms by (simp add: refresh_def getById_def record_call_def made_def)

text \<open>The theorem at the upload library \<open>lib2\<close>.\<close>

theorem refresh_rejects_non_import_witness:
  "find (\<lambda>x. library_id x = ''lib2'') (libraries ex_world) =
       Some \<lparr>library_id = ''lib2'', library_type = UPLOAD, importPaths = []\<rparr>
   \<and> UPLOAD \<noteq> IMPORT
   \<and> fst (refresh ex_env ''u1'' ''lib2'' ex_dto ex_world) =
       Inl (InternalServerErrorException ''Only imported libraries can be refreshed'')
   \<and> jobs (snd (refresh ex_env ''u1'' ''lib2'' ex_dto ex_world)) = []
   \<and> made ex_world (snd (refresh ex_env ''u1'' ''lib2'' ex_dto ex_world)) = [Call_getById ''lib2'']"
  using refresh_rejects_non_import [of "''lib2''" ex_world "\<lparr>library_id = ''lib2'', library_type = UPLOAD, importPaths = []\<rparr>"
      ex_env "''u1''" ex_dto]
  by (simp add: examples)

section \<open>The ingest worker when the file can be read\<close>

text \<open>
  Claim C7. For every ingest job over an asset that the catalog holds with
  \<open>isOffline = True\<close> and whose file can be stat'ed, the worker clears the flag before it
  acts on the decision to import: after the catalog read and the stat, its next call is
  the update that sets \<open>isOffline = False\<close>, every later call belongs to the import,
  and at the end, however the run ends, the asset's row is in the catalog with the flag
  cleared and no row with its id is offline.
\<close>

theorem handleRefreshAsset_clears_offline_first:
  assumes "stored (libraryId job) (assetPath job) w = Some a"
    and "isOffline a"
    and "fs_stat e (assetPath job) = Some f"
  shows "(\<exists>rest. made w (snd (handleRefreshAsset e job w)) =
             [Call_getByLibraryIdAndOriginalPath (libraryId job) (assetPath job),
              Call_stat (assetPath job), Call_update (asset_id a) False] @ rest
           \<and> list_all importCall rest)
       \<and> a\<lparr>isOffline := False\<rparr> \<in> set (assets (snd (handleRefreshAsset e job w)))
       \<and> (\<forall>r \<in> set (assets (snd (handleRefreshAsset e job w))).
             asset_id r = asset_id a \<longrightarrow> \<not> isOffline r)"
proof -
  define w3 where "w3 = update (asset_id a) False
      (record_call (Call_stat (assetPath job))
        (record_call (Call_getByLibraryIdAndOriginalPath (libraryId job) (assetPath job))
          (w\<lparr>next_ref := Suc (Suc (Suc (Suc (next_ref w))))\<rparr>)))"
  define s where "s = \<lparr>mtime = \<lparr>date_ref = Suc (Suc (next_ref w)), getTime = file_mtime f\<rparr>,
      ctime = \<lparr>date_ref = Suc (Suc (Suc (next_ref w))), getTime = file_ctime f\<rparr>,
      stat_size = file_size f\<rparr>"
  have c3: "calls w3 = calls w @
      [Call_getByLibraryIdAndOriginalPath (libraryId job) (assetPath job),
       Call_stat (assetPath job), Call_update (asset_id a) False]"
    by (simp add: w3_def update_def record_call_def)
  have a3: "assets w3 =
      map (\<lambda>r. if asset_id r = asset_id a then r\<lparr>isOffline := False\<rparr> else r) (assets w)"
    by (simp add: w3_def update_def record_call_def)
  have run: "handleRefreshAsset e job w = (Inr True, w3) \<or>
      handleRefreshAsset e job w = importAsset e job s w3"
    using assms
    by (simp add: handleRefreshAsset_def getByLibraryIdAndOriginalPath_def stat_def
        new_Date_def entity_of_def stored_def record_call_def update_def w3_def s_def Let_def)
  obtain rest where rest: "calls (snd (handleRefreshAsset e job w)) = calls w3 @ rest"
      "list_all importCall rest"
    using run importAsset_calls [of e job s w3] by auto
  have grown: "assets (snd (handleRefreshAsset e job w)) = assets w3 \<or>
      (\<exists>row. assets (snd (handleRefreshAsset e job w)) = assets w3 @ [row] \<and> \<not> isOffline row)"
    using run importAsset_assets [of e job s w3] by auto
  have in3: "a\<lparr>isOffline := False\<rparr> \<in> set (assets w3)"
    using stored_in_assets [OF assms(1)] by (force simp: a3)
  have all3: "\<forall>r \<in> set (assets w3). asset_id r = asset_id a \<longrightarrow> \<not> isOffline r"
    by (auto simp: a3)
  have "made w (snd (handleRefreshAsset e job w)) =
      [Call_getByLibraryIdAndOriginalPath (libraryId job) (assetPath job),
       Call_stat (assetPath job), Call_update (asset_id a) False] @ rest"
    by (simp add: made_def rest(1) c3)
  moreover have "a\<lparr>isOffline := False\<rparr> \<in> set (assets (snd (handleRefreshAsset e job w)))"
    using grown in3 by auto
  moreover have "\<forall>r \<in> set (assets (snd (handleRefreshAsset e job w))).
      asset_id r = asset_id a \<longrightarrow> \<not> isOffline r"
    using grown all3 by auto
  ultimately show ?thesis using rest(2) by blast
qed

text \<open>
  The theorem on the catalog whose asset for \<open>/media/a.jpg\<close> is offline.
\<close>

theorem handleRefreshAsset_clears_offline_first_witness:
  "stored ''lib1'' ''/media/a.jpg'' ex_offline = Some (ex_row ''/media/a.jpg'' 1000 True)
   \<and> isOffline (ex_row ''/media/a.jpg'' 1000 True)
   \<and> fs_stat ex_env ''/media/a.jpg'' =
       Some \<lparr>file_mtime = 1000, file_ctime = 900, file_size = 2048\<rparr>
   \<and> take 3 (made ex_offline
        (snd (handleRefreshAsset ex_env (ex_job ''/media/a.jpg'' False) ex_offline))) =
       [Call_getByLibraryIdAndOriginalPath ''lib1'' ''/media/a.jpg'',
        Call_stat ''/media/a.jpg'', Call_update 1 False]
   \<and> ex_row ''/media/a.jpg'' 1000 False
       \<in> set (assets (snd (handleRefreshAsset ex_env (ex_job ''/media/a.jpg'' False) ex_offline)))"
  using handleRefreshAsset_clears_offline_first [of "ex_job ''/media/a.jpg'' False" ex_offline
      "ex_row ''/media/a.jpg'' 1000 True" ex_env
      "\<lparr>file_mtime = 1000, file_ctime = 900, file_size = 2048\<rparr>"]
  by (simp add: run_defs examples stored_def made_def)

text \<open>
  Claim C8. Whenever a run of the ingest worker performs an import (it calls
  \<^verbatim>\<open>create\<close>), it returns \<open>True\<close> and queues exactly these jobs: a
  \<^verbatim>\<open>METADATA_EXTRACTION\<close> job for the created asset, followed by a
  \<^verbatim>\<open>VIDEO_CONVERSION\<close> job for it if and only if the type derived from the MIME type,
  which is the type of the created asset, is \<open>VIDEO\<close>.
\<close>

theorem handleRefreshAsset_follow_on_jobs:
  assumes "Call_create (libraryId job) (assetPath job)
             \<in> set (made w (snd (handleRefreshAsset e job w)))"
  shows "\<exists>m. mime_lookup e (assetPath job) = Some m
       \<and> fst (handleRefreshAsset e job w) = Inr True
       \<and> emitted w (snd (handleRefreshAsset e job w)) =
           METADATA_EXTRACTION (next_id w) ''upload'' #
           (if toUpperCase (split_slash_0 m) = AssetType_VIDEO
            then [VIDEO_CONVERSION (next_id w)] else [])
       \<and> (VIDEO_CONVERSION (next_id w) \<in> set (emitted w (snd (handleRefreshAsset e job w))))
           = (assetType (last (assets (snd (handleRefreshAsset e job w)))) = AssetType_VIDEO)
       \<and> asset_id (last (assets (snd (handleRefreshAsset e job w)))) = next_id w
       \<and> assetType (last (assets (snd (handleRefreshAsset e job w)))) =
           toUpperCase (split_slash_0 m)"
proof -
  obtain w3 s pre where pre: "calls w3 = calls w @ pre" "list_all (\<lambda>c. \<not> importCall c) pre"
      "jobs w3 = jobs w" "next_id w3 = next_id w"
    and run: "handleRefreshAsset e job w = importAsset e job s w3
          \<or> snd (handleRefreshAsset e job w) = w3"
    using handleRefreshAsset_shape [of w e job] by blast
  have nocreate: "Call_create (libraryId job) (assetPath job) \<notin> set pre"
    using pre(2) by (auto simp: list_all_iff)
  have notw3: "snd (handleRefreshAsset e job w) \<noteq> w3"
    using assms nocreate pre(1) by (auto simp: made_def)
  then have imp: "handleRefreshAsset e job w = importAsset e job s w3"
    using run by blast
  obtain m where m: "mime_lookup e (assetPath job) = Some m" "m \<noteq> []"
      "isAsset e (assetPath job)"
    using importAsset_fails [of e job s w3] notw3 imp by auto
  note ok = importAsset_succeeds [OF m, of s w3]
  have em: "emitted w (snd (handleRefreshAsset e job w)) =
           METADATA_EXTRACTION (next_id w) ''upload'' #
           (if toUpperCase (split_slash_0 m) = AssetType_VIDEO
            then [VIDEO_CONVERSION (next_id w)] else [])"
    by (simp add: emitted_def imp ok(2) pre(3,4))
  have ty: "assetType (last (assets (snd (handleRefreshAsset e job w)))) =
           toUpperCase (split_slash_0 m)"
    by (simp add: imp ok(5))
  have "(VIDEO_CONVERSION (next_id w) \<in> set (emitted w (snd (handleRefreshAsset e job w))))
           = (assetType (last (assets (snd (handleRefreshAsset e job w)))) = AssetType_VIDEO)"
    by (simp add: em ty)
  moreover have "fst (handleRefreshAsset e job w) = Inr True"
    by (simp add: imp ok(1))
  moreover have "asset_id (last (assets (snd (handleRefreshAsset e job w)))) = next_id w"
    by (simp add: imp ok(4) pre(4))
  ultimately show ?thesis using m(1) em ty by blast
qed

text \<open>
  The theorem at \<open>/media/a.mp4\<close>, which gets both jobs, and at \<open>/media/a.jpg\<close>, which
  gets the metadata extraction only.
\<close>

theorem handleRefreshAsset_follow_on_jobs_witness:
  "Call_create ''lib1'' ''/media/a.mp4''
     \<in> set (made ex_world (snd (handleRefreshAsset ex_env (ex_job ''/media/a.mp4'' False) ex_world)))
   \<and> fst (handleRefreshAsset ex_env (ex_job ''/media/a.mp4'' False) ex_world) = Inr True
   \<and> emitted ex_world (snd (handleRefreshAsset ex_env (ex_job ''/media/a.mp4'' False) ex_world)) =
       [METADATA_EXTRACTION 2 ''upload'', VIDEO_CONVERSION 2]
   \<and> assetType (last (assets (snd (handleRefreshAsset ex_env (ex_job ''/media/a.mp4'' False) ex_world))))
       = ''VIDEO''
   \<and> Call_create ''lib1'' ''/media/a.jpg''
     \<in> set (made ex_world (snd (handleRefreshAsset ex_env (ex_job ''/media/a.jpg'' False) ex_world)))
   \<and> fst (handleRefreshAsset ex_env (ex_job ''/media/a.jpg'' False) ex_world) = Inr True
   \<and> emitted ex_world (snd (handleRefreshAsset ex_env (ex_job ''/media/a.jpg'' False) ex_world)) =
       [METADATA_EXTRACTION 2 ''upload'']
   \<and> assetType (last (assets (snd (handleRefreshAsset ex_env (ex_job ''/media/a.jpg'' False) ex_world))))
       = ''IMAGE''"
  using handleRefreshAsset_follow_on_jobs [of "ex_job ''/media/a.mp4'' False" ex_world ex_env]
    handleRefreshAsset_follow_on_jobs [of "ex_job ''/media/a.jpg'' False" ex_world ex_env]
  by (simp add: run_defs examples made_def emitted_def)

section \<open>The jobs of a reconciliation pass\<close>

text \<open>
  Claim C1, as amended. For every refresh pass that completes (with \<^verbatim>\<open>path.normalize\<close>
  idempotent), the pass queues refresh and offline jobs only; the refresh jobs carry the
  normalized crawl result, entry by entry, so that a path gets as many refresh jobs as
  it has occurrences there, and exactly one when it occurs once; the offline jobs carry
  the normalized paths of the library's catalog assets that are not in the crawl result,
  asset by asset, so that such a path gets as many offline jobs as the library has
  assets with that normalized path; and a path in the crawl result gets no offline job.
\<close>

theorem refresh_emits_per_occurrence:
  assumes "find (\<lambda>x. library_id x = l) (libraries w) = Some lib"
    and "library_type lib = IMPORT"
    and "findAllMedia e (importPaths lib) = Inr found"
    and "fetch_rejection e = None"
    and "\<forall>p. path_normalize e (path_normalize e p) = path_normalize e p"
  shows "fst (refresh e u l dto w) = Inr ()
       \<and> jobs (snd (refresh e u l dto w)) = jobs w @ emitted w (snd (refresh e u l dto w))
       \<and> length (emitted w (snd (refresh e u l dto w))) =
           length (refreshPaths (emitted w (snd (refresh e u l dto w)))) +
           length (offlinePaths (emitted w (snd (refresh e u l dto w))))
       \<and> refreshPaths (emitted w (snd (refresh e u l dto w))) = map (path_normalize e) found
       \<and> offlinePaths (emitted w (snd (refresh e u l dto w))) =
           filter (\<lambda>p. p \<notin> set (map (path_normalize e) found))
             (map (\<lambda>r. path_normalize e (originalPath r)) (filter (\<lambda>r. library r = l) (assets w)))
       \<and> (\<forall>p. count_list (refreshPaths (emitted w (snd (refresh e u l dto w)))) p =
                count_list (map (path_normalize e) found) p)
       \<and> (\<forall>p. count_list (offlinePaths (emitted w (snd (refresh e u l dto w)))) p =
                (if p \<in> set (map (path_normalize e) found) then 0
                 else count_list (map (\<lambda>r. path_normalize e (originalPath r))
                        (filter (\<lambda>r. library r = l) (assets w))) p))"
proof -
  let ?crawled = "map (path_normalize e) found"
  let ?offline = "filter (\<lambda>p. p \<notin> set ?crawled)
      (map (\<lambda>r. path_normalize e (originalPath r)) (filter (\<lambda>r. library r = l) (assets w)))"
  let ?w' = "snd (refresh e u l dto w)"
  note fin = refresh_completes [OF assms(1-4), of u dto]
  have em: "emitted w ?w' =
      map (\<lambda>p. refreshJob u l dto (path_normalize e p)) ?crawled @ map (offlineJob u l dto) ?offline"
    by (simp add: emitted_def fin(2) comp_def)
  have again: "map (path_normalize e) ?crawled = ?crawled"
    using assms(5) by simp
  have r: "refreshPaths (emitted w ?w') = ?crawled"
    by (simp only: em refreshPaths_append refreshPaths_refreshJob refreshPaths_offlineJob
        again append_Nil2)
  have o: "offlinePaths (emitted w ?w') = ?offline"
    by (simp only: em offlinePaths_append offlinePaths_refreshJob offlinePaths_offlineJob
        append_Nil)
  have len: "length (emitted w ?w') = length (refreshPaths (emitted w ?w')) +
      length (offlinePaths (emitted w ?w'))"
    unfolding r o by (simp add: em)
  have j: "jobs ?w' = jobs w @ emitted w ?w'"
    by (simp add: emitted_def fin(2))
  have co: "\<forall>p. count_list (offlinePaths (emitted w ?w')) p =
      (if p \<in> set ?crawled then 0
       else count_list (map (\<lambda>r. path_normalize e (originalPath r))
              (filter (\<lambda>r. library r = l) (assets w))) p)"
    unfolding o by (simp only: count_list_filter_out) simp
  show ?thesis using fin(1) j len r o co by simp
qed

text \<open>The theorem at the library \<open>lib1\<close> of the example.\<close>

theorem refresh_emits_per_occurrence_witness:
  "find (\<lambda>x. library_id x = ''lib1'') (libraries ex_world) =
       Some \<lparr>library_id = ''lib1'', library_type = IMPORT, importPaths = [''/media'']\<rparr>
   \<and> findAllMedia ex_env [''/media''] =
       Inr [''/media/a.jpg'', ''/media/a.mp4'', ''/media/sub/c.jpg'']
   \<and> fetch_rejection ex_env = None
   \<and> (\<forall>p. path_normalize ex_env (path_normalize ex_env p) = path_normalize ex_env p)
   \<and> fst (refresh ex_env ''u1'' ''lib1'' ex_dto ex_world) = Inr ()
   \<and> refreshPaths (emitted ex_world (snd (refresh ex_env ''u1'' ''lib1'' ex_dto ex_world))) =
       [''/media/a.jpg'', ''/media/a.mp4'', ''/media/sub/c.jpg'']
   \<and> offlinePaths (emitted ex_world (snd (refresh ex_env ''u1'' ''lib1'' ex_dto ex_world))) =
       [''/media/b.jpg'']
   \<and> length (emitted ex_world (snd (refresh ex_env ''u1'' ''lib1'' ex_dto ex_world))) = 4"
  using refresh_emits_per_occurrence [of "''lib1''" ex_world
      "\<lparr>library_id = ''lib1'', library_type = IMPORT, importPaths = [''/media'']\<rparr>"
      ex_env "[''/media/a.jpg'', ''/media/a.mp4'', ''/media/sub/c.jpg'']" "''u1''" ex_dto]
  by (simp add: examples)

text \<open>
  As stated, with exactly one refresh job for every path of the crawl result, the claim
  fails where the crawl result repeats a path: \<open>lib3\<close> imports \<open>/media\<close> and
  \<open>/media/sub\<close>, the crawl meets \<open>/media/sub/c.jpg\<close> under both, and the pass queues two
  refresh jobs for it.
\<close>

theorem refresh_duplicate_crawl_counterexample:
  "fst (refresh ex_env ''u1'' ''lib3'' ex_dto ex_world) = Inr ()
   \<and> count_list (refreshPaths (emitted ex_world (snd (refresh ex_env ''u1'' ''lib3'' ex_dto ex_world))))
       ''/media/sub/c.jpg'' = 2"
  by (simp add: refresh_def getById_def getByLibraryId_def record_call_def Let_def
      queue_def orFalse_def emitted_def examples refreshJob_def offlineJob_def)

section \<open>A reconciliation pass that fails\<close>

text \<open>
  Claim C4, as amended. If the crawl of the import paths fails, \<open>refresh\<close> fails with
  the crawl's error and has queued no job. If the crawl succeeds and the fetch of the
  library's assets fails, \<open>refresh\<close> fails with the fetch's error after it has queued
  the refresh jobs of all crawled paths and no offline job.
\<close>

theorem refresh_failure_emission:
  assumes "find (\<lambda>x. library_id x = l) (libraries w) = Some lib"
    and "library_type lib = IMPORT"
  shows "(\<forall>x. findAllMedia e (importPaths lib) = Inl x \<longrightarrow>
            fst (refresh e u l dto w) = Inl x
          \<and> jobs (snd (refresh e u l dto w)) = jobs w
          \<and> made w (snd (refresh e u l dto w)) =
               [Call_getById l, Call_findAllMedia (importPaths lib)])
       \<and> (\<forall>found x. findAllMedia e (importPaths lib) = Inr found \<and> fetch_rejection e = Some x \<longrightarrow>
            fst (refresh e u l dto w) = Inl x
          \<and> jobs (snd (refresh e u l dto w)) = jobs w @
               map (\<lambda>p. refreshJob u l dto (path_normalize e (path_normalize e p))) found
          \<and> offlinePaths (emitted w (snd (refresh e u l dto w))) = [])"
proof (intro conjI allI impI)
  fix x assume "findAllMedia e (importPaths lib) = Inl x"
  then have run: "refresh e u l dto w =
      (Inl x, record_call (Call_findAllMedia (importPaths lib)) (record_call (Call_getById l) w))"
    using assms by (simp add: refresh_def getById_def)
  show "fst (refresh e u l dto w) = Inl x" by (simp add: run)
  show "jobs (snd (refresh e u l dto w)) = jobs w" by (simp add: run record_call_def)
  show "made w (snd (refresh e u l dto w)) = [Call_getById l, Call_findAllMedia (importPaths lib)]"
    by (simp add: run record_call_def made_def)
next
  fix found x
  assume a: "findAllMedia e (importPaths lib) = Inr found \<and> fetch_rejection e = Some x"
  show "fst (refresh e u l dto w) = Inl x"
    using assms a by (simp add: refresh_def getById_def getByLibraryId_def Let_def)
  show j: "jobs (snd (refresh e u l dto w)) = jobs w @
      map (\<lambda>p. refreshJob u l dto (path_normalize e (path_normalize e p))) found"
    using assms a
    by (simp add: refresh_def getById_def getByLibraryId_def Let_def record_call_def
        queueEach_jobs comp_def)
  show "offlinePaths (emitted w (snd (refresh e u l dto w))) = []"
    using offlinePaths_refreshJob [of u l dto "\<lambda>p. path_normalize e (path_normalize e p)" found]
    by (simp add: emitted_def j)
qed

text \<open>The theorem at \<open>lib1\<close>, once with a failing crawl and once with a failing fetch.\<close>

theorem refresh_failure_emission_witness:
  "find (\<lambda>x. library_id x = ''lib1'') (libraries ex_world) =
       Some \<lparr>library_id = ''lib1'', library_type = IMPORT, importPaths = [''/media'']\<rparr>
   \<and> findAllMedia ex_env_crawl_fails [''/media''] = Inl (Rejected ''crawl failed'')
   \<and> fst (refresh ex_env_crawl_fails ''u1'' ''lib1'' ex_dto ex_world) = Inl (Rejected ''crawl failed'')
   \<and> jobs (snd (refresh ex_env_crawl_fails ''u1'' ''lib1'' ex_dto ex_world)) = []
   \<and> findAllMedia ex_env_fetch_fails [''/media''] =
       Inr [''/media/a.jpg'', ''/media/a.mp4'', ''/media/sub/c.jpg'']
   \<and> fetch_rejection ex_env_fetch_fails = Some (Rejected ''fetch failed'')
   \<and> fst (refresh ex_env_fetch_fails ''u1'' ''lib1'' ex_dto ex_world) = Inl (Rejected ''fetch failed'')
   \<and> refreshPaths (jobs (snd (refresh ex_env_fetch_fails ''u1'' ''lib1'' ex_dto ex_world))) =
       [''/media/a.jpg'', ''/media/a.mp4'', ''/media/sub/c.jpg'']
   \<and> offlinePaths (jobs (snd (refresh ex_env_fetch_fails ''u1'' ''lib1'' ex_dto ex_world))) = []"
  using refresh_failure_emission [of "''lib1''" ex_world
      "\<lparr>library_id = ''lib1'', library_type = IMPORT, importPaths = [''/media'']\<rparr>"
      ex_env_crawl_fails "''u1''" ex_dto]
    refresh_failure_emission [of "''lib1''" ex_world
      "\<lparr>library_id = ''lib1'', library_type = IMPORT, importPaths = [''/media'']\<rparr>"
      ex_env_fetch_fails "''u1''" ex_dto]
  by (simp add: examples refreshJob_def emitted_def)

text \<open>
  As stated, with no job at all from a failed pass, the claim fails where the fetch
  fails: the three refresh jobs are in the queue when \<open>refresh\<close> fails.
\<close>

theorem refresh_fetch_failure_counterexample:
  "fst (refresh ex_env_fetch_fails ''u1'' ''lib1'' ex_dto ex_world) = Inl (Rejected ''fetch failed'')
   \<and> jobs ex_world = []
   \<and> jobs (snd (refresh ex_env_fetch_fails ''u1'' ''lib1'' ex_dto ex_world)) =
       [refreshJob ''u1'' ''lib1'' ex_dto ''/media/a.jpg'',
        refreshJob ''u1'' ''lib1'' ex_dto ''/media/a.mp4'',
        refreshJob ''u1'' ''lib1'' ex_dto ''/media/sub/c.jpg'']"
  by (simp add: refresh_def getById_def getByLibraryId_def record_call_def Let_def
      queue_def examples)

section \<open>The ingest worker on a file that has not changed\<close>

text \<open>
  Line 163 compares \<^verbatim>\<open>stats.mtime\<close> with the entity's \<^verbatim>\<open>fileModifiedAt\<close> by
  \<^verbatim>\<open>!==\<close>. Both are \<^verbatim>\<open>Date\<close> objects, the one made by the stat and the other read
  from the catalog before it, so they are never the same object and the comparison
  holds whatever times they carry: a file that can be read is always imported.
\<close>

lemma handleRefreshAsset_readable:
  assumes "fs_stat e (assetPath job) = Some f"
  shows "\<exists>s w3. handleRefreshAsset e job w = importAsset e job s w3"
  using assms
  by (cases "find (\<lambda>r. library r = libraryId job \<and> originalPath r = assetPath job) (assets w)")
    (auto simp add: handleRefreshAsset_def getByLibraryIdAndOriginalPath_def stat_def
      new_Date_def entity_of_def doImport_def strict_neq_def record_call_def Let_def)

text \<open>
  Claim C2, evaluated. The catalog stores modification time 1000 for \<open>/media/a.jpg\<close>,
  the file on disk has modification time 1000, and \<open>forceRefresh\<close> is \<open>False\<close>. The first
  run imports, and so does the second run on the state the first one left: each hashes
  the file, creates an asset and queues a metadata extraction.
\<close>

theorem handleRefreshAsset_unchanged_file_twice:
  "map fileModifiedAt (rowsAt ''lib1'' ''/media/a.jpg'' ex_unchanged) = [1000]
   \<and> map_option file_mtime (fs_stat ex_env ''/media/a.jpg'') = Some 1000
   \<and> forceRefresh (ex_job ''/media/a.jpg'' False) = False
   \<and> fst (handleRefreshAsset ex_env (ex_job ''/media/a.jpg'' False) ex_unchanged) = Inr True
   \<and> made ex_unchanged ex_once =
       [Call_getByLibraryIdAndOriginalPath ''lib1'' ''/media/a.jpg'',
        Call_stat ''/media/a.jpg'', Call_hashFile ''/media/a.jpg'',
        Call_access ''/media/a.jpg.xmp'', Call_create ''lib1'' ''/media/a.jpg'',
        Call_queue (METADATA_EXTRACTION 2 ''upload'')]
   \<and> map fileModifiedAt (rowsAt ''lib1'' ''/media/a.jpg'' ex_once) = [1000, 1000]
   \<and> fst (handleRefreshAsset ex_env (ex_job ''/media/a.jpg'' False) ex_once) = Inr True
   \<and> made ex_once (snd (handleRefreshAsset ex_env (ex_job ''/media/a.jpg'' False) ex_once)) =
       [Call_getByLibraryIdAndOriginalPath ''lib1'' ''/media/a.jpg'',
        Call_stat ''/media/a.jpg'', Call_hashFile ''/media/a.jpg'',
        Call_access ''/media/a.jpg.xmp'', Call_create ''lib1'' ''/media/a.jpg'',
        Call_queue (METADATA_EXTRACTION 3 ''upload'')]
   \<and> jobs (snd (handleRefreshAsset ex_env (ex_job ''/media/a.jpg'' False) ex_once)) =
       [METADATA_EXTRACTION 2 ''upload'', METADATA_EXTRACTION 3 ''upload'']"
proof -
  have first: "fst (handleRefreshAsset ex_env (ex_job ''/media/a.jpg'' False) ex_unchanged) = Inr True"
    by (simp add: run_defs examples)
  have before: "map fileModifiedAt (rowsAt ''lib1'' ''/media/a.jpg'' ex_unchanged) = [1000]"
      "map_option file_mtime (fs_stat ex_env ''/media/a.jpg'') = Some 1000"
      "forceRefresh (ex_job ''/media/a.jpg'' False) = False"
    by (simp_all add: rowsAt_def examples)
  have m1: "made ex_unchanged ex_once =
       [Call_getByLibraryIdAndOriginalPath ''lib1'' ''/media/a.jpg'',
        Call_stat ''/media/a.jpg'', Call_hashFile ''/media/a.jpg'',
        Call_access ''/media/a.jpg.xmp'', Call_create ''lib1'' ''/media/a.jpg'',
        Call_queue (METADATA_EXTRACTION 2 ''upload'')]"
    by (simp add: made_def ex_once_eq) (simp add: examples)
  have r1: "map fileModifiedAt (rowsAt ''lib1'' ''/media/a.jpg'' ex_once) = [1000, 1000]"
    by (simp add: rowsAt_def ex_once_eq examples)
  have second: "handleRefreshAsset ex_env (ex_job ''/media/a.jpg'' False) ex_once =
     (Inr True,
      \<lparr>assets = [ex_row ''/media/a.jpg'' 1000 False, ex_added 2, ex_added 3],
       libraries = libraries ex_unchanged,
       jobs = [METADATA_EXTRACTION 2 ''upload'', METADATA_EXTRACTION 3 ''upload''],
       calls = calls ex_once @ [Call_getByLibraryIdAndOriginalPath ''lib1'' ''/media/a.jpg'',
               Call_stat ''/media/a.jpg'', Call_hashFile ''/media/a.jpg'',
               Call_access ''/media/a.jpg.xmp'', Call_create ''lib1'' ''/media/a.jpg'',
               Call_queue (METADATA_EXTRACTION 3 ''upload'')],
       next_id = 4, next_ref = 8\<rparr>)"
    by (simp add: ex_once_eq run_defs examples)
  have m2: "made ex_once (snd (handleRefreshAsset ex_env (ex_job ''/media/a.jpg'' False) ex_once)) =
       [Call_getByLibraryIdAndOriginalPath ''lib1'' ''/media/a.jpg'',
        Call_stat ''/media/a.jpg'', Call_hashFile ''/media/a.jpg'',
        Call_access ''/media/a.jpg.xmp'', Call_create ''lib1'' ''/media/a.jpg'',
        Call_queue (METADATA_EXTRACTION 3 ''upload'')]"
    by (simp add: second made_def)
  have j2: "jobs (snd (handleRefreshAsset ex_env (ex_job ''/media/a.jpg'' False) ex_once)) =
       [METADATA_EXTRACTION 2 ''upload'', METADATA_EXTRACTION 3 ''upload'']"
    by (simp add: second)
  have f2: "fst (handleRefreshAsset ex_env (ex_job ''/media/a.jpg'' False) ex_once) = Inr True"
    by (simp add: second)
  show ?thesis
    using first before m1 r1 m2 j2 f2 by blast
qed

text \<open>
  Claim C10, evaluated. Under the conditions of the skip path (an asset in the catalog,
  no \<open>forceRefresh\<close>, the stored modification time equal to the file's) the run hashes
  the file, adds a row to the catalog and queues a job.
\<close>

theorem handleRefreshAsset_unchanged_file_imports:
  "stored ''lib1'' ''/media/a.jpg'' ex_unchanged = Some (ex_row ''/media/a.jpg'' 1000 False)
   \<and> fileModifiedAt (ex_row ''/media/a.jpg'' 1000 False) = 1000
   \<and> map_option file_mtime (fs_stat ex_env ''/media/a.jpg'') = Some 1000
   \<and> forceRefresh (ex_job ''/media/a.jpg'' False) = False
   \<and> fst (handleRefreshAsset ex_env (ex_job ''/media/a.jpg'' False) ex_unchanged) = Inr True
   \<and> Call_hashFile ''/media/a.jpg''
       \<in> set (made ex_unchanged (snd (handleRefreshAsset ex_env (ex_job ''/media/a.jpg'' False) ex_unchanged)))
   \<and> assets (snd (handleRefreshAsset ex_env (ex_job ''/media/a.jpg'' False) ex_unchanged)) =
       [ex_row ''/media/a.jpg'' 1000 False, ex_added 2]
   \<and> emitted ex_unchanged (snd (handleRefreshAsset ex_env (ex_job ''/media/a.jpg'' False) ex_unchanged)) =
       [METADATA_EXTRACTION 2 ''upload'']"
  by (simp add: run_defs examples stored_def made_def emitted_def)

section \<open>The ingest worker on a file that has changed\<close>

text \<open>
  Claim C3, evaluated. The catalog holds one asset for \<open>/media/a.jpg\<close> with an older
  modification time. The import calls \<^verbatim>\<open>create\<close> without the id of the asset it
  found: afterwards the catalog holds two rows for the path, the old one as it was, and
  the invariant of one asset per library and path is lost.
\<close>

theorem handleRefreshAsset_reimport_adds_record:
  "onePerPath ex_modified
   \<and> stored ''lib1'' ''/media/a.jpg'' ex_modified = Some (ex_row ''/media/a.jpg'' 500 False)
   \<and> map_option file_mtime (fs_stat ex_env ''/media/a.jpg'') = Some 1000
   \<and> fst (handleRefreshAsset ex_env (ex_job ''/media/a.jpg'' False) ex_modified) = Inr True
   \<and> rowsAt ''lib1'' ''/media/a.jpg''
        (snd (handleRefreshAsset ex_env (ex_job ''/media/a.jpg'' False) ex_modified)) =
       [ex_row ''/media/a.jpg'' 500 False, ex_added 2]
   \<and> \<not> onePerPath (snd (handleRefreshAsset ex_env (ex_job ''/media/a.jpg'' False) ex_modified))"
  by (simp add: run_defs examples stored_def rowsAt_def onePerPath_def)

end
